theory Spec2Isabelle
  imports Complex_Main
begin

section \<open>Numbers of a pandas column\<close>

text \<open>
  A numeric pandas column holds IEEE doubles. The properties verified here depend on the
  special values only (a missing value is NaN, a non-zero number divided by zero is an
  infinity, zero divided by zero is NaN), so a finite double is modelled by the rational it
  denotes: rounding, overflow and the sign of zero are left out.
\<close>

datatype fl = Fin rat | PInf | NInf | NaN

fun fl_add :: "fl \<Rightarrow> fl \<Rightarrow> fl" where
  "fl_add NaN _ = NaN"
| "fl_add _ NaN = NaN"
| "fl_add (Fin a) (Fin b) = Fin (a + b)"
| "fl_add PInf NInf = NaN"
| "fl_add NInf PInf = NaN"
| "fl_add PInf _ = PInf"
| "fl_add _ PInf = PInf"
| "fl_add NInf _ = NInf"
| "fl_add _ NInf = NInf"

fun fl_mul :: "fl \<Rightarrow> fl \<Rightarrow> fl" where
  "fl_mul NaN _ = NaN"
| "fl_mul _ NaN = NaN"
| "fl_mul (Fin a) (Fin b) = Fin (a * b)"
| "fl_mul (Fin a) PInf = (if a = 0 then NaN else if 0 < a then PInf else NInf)"
| "fl_mul (Fin a) NInf = (if a = 0 then NaN else if 0 < a then NInf else PInf)"
| "fl_mul PInf (Fin b) = (if b = 0 then NaN else if 0 < b then PInf else NInf)"
| "fl_mul NInf (Fin b) = (if b = 0 then NaN else if 0 < b then NInf else PInf)"
| "fl_mul PInf PInf = PInf"
| "fl_mul NInf NInf = PInf"
| "fl_mul PInf NInf = NInf"
| "fl_mul NInf PInf = NInf"

text \<open>True division of two columns, \<^verbatim>\<open>a / b\<close>: pandas raises nothing on a zero divisor.\<close>

fun fl_div :: "fl \<Rightarrow> fl \<Rightarrow> fl" where
  "fl_div NaN _ = NaN"
| "fl_div _ NaN = NaN"
| "fl_div (Fin a) (Fin b) =
     (if b = 0 then (if a = 0 then NaN else if 0 < a then PInf else NInf) else Fin (a / b))"
| "fl_div (Fin a) PInf = Fin 0"
| "fl_div (Fin a) NInf = Fin 0"
| "fl_div PInf (Fin b) = (if 0 \<le> b then PInf else NInf)"
| "fl_div NInf (Fin b) = (if 0 \<le> b then NInf else PInf)"
| "fl_div PInf PInf = NaN"
| "fl_div PInf NInf = NaN"
| "fl_div NInf PInf = NaN"
| "fl_div NInf NInf = NaN"

definition isna :: "fl \<Rightarrow> bool" where
  "isna x = (x = NaN)"

text \<open>\<^verbatim>\<open>Series.fillna(0)\<close> on one cell: only NaN is replaced.\<close>

definition fillna0 :: "fl \<Rightarrow> fl" where
  "fillna0 x = (if isna x then Fin 0 else x)"

text \<open>\<^verbatim>\<open>Series.round(2)\<close> on one cell: the nearest multiple of 0.01, ties to even.\<close>

definition round_half_even :: "rat \<Rightarrow> int" where
  "round_half_even q =
     (let f = \<lfloor>q\<rfloor>; d = q - of_int f
      in if d < 1 / 2 then f else if 1 / 2 < d then f + 1 else if even f then f else f + 1)"

definition round2 :: "fl \<Rightarrow> fl" where
  "round2 x = (case x of Fin q \<Rightarrow> Fin (of_int (round_half_even (q * 100)) / 100) | _ \<Rightarrow> x)"

text \<open>The aggregations of \<^verbatim>\<open>groupby(...).agg\<close>: \<^verbatim>\<open>sum\<close> skips NaN, \<^verbatim>\<open>count\<close>
  counts the cells that are not null, \<^verbatim>\<open>first\<close> is the first cell that is not null,
  \<^verbatim>\<open>min\<close> and \<^verbatim>\<open>max\<close> skip nulls.\<close>

definition fl_sum :: "fl list \<Rightarrow> fl" where
  "fl_sum xs = foldr fl_add xs (Fin 0)"

definition nansum :: "fl list \<Rightarrow> fl" where
  "nansum xs = fl_sum (filter (\<lambda>x. \<not> isna x) xs)"

definition count_notna :: "'a option list \<Rightarrow> nat" where
  "count_notna xs = length (filter (\<lambda>x. x \<noteq> None) xs)"

definition first_valid :: "'a option list \<Rightarrow> 'a option" where
  "first_valid xs = (case filter (\<lambda>x. x \<noteq> None) xs of [] \<Rightarrow> None | x # _ \<Rightarrow> x)"

definition first_valid_fl :: "fl list \<Rightarrow> fl" where
  "first_valid_fl xs = (case filter (\<lambda>x. \<not> isna x) xs of [] \<Rightarrow> NaN | x # _ \<Rightarrow> x)"

definition min_valid :: "int option list \<Rightarrow> int option" where
  "min_valid xs = (case List.map_filter id xs of [] \<Rightarrow> None | y # ys \<Rightarrow> Some (fold min ys y))"

definition max_valid :: "int option list \<Rightarrow> int option" where
  "max_valid xs = (case List.map_filter id xs of [] \<Rightarrow> None | y # ys \<Rightarrow> Some (fold max ys y))"

text \<open>The keys of \<^verbatim>\<open>groupby(col)\<close>: the distinct values of the column that are not null,
  in ascending order (pandas sorts the groups and drops the null key).\<close>

definition group_keys :: "('a \<Rightarrow> int option) \<Rightarrow> 'a list \<Rightarrow> int list" where
  "group_keys key rows = sort (remdups (List.map_filter key rows))"

definition group_rows :: "('a \<Rightarrow> int option) \<Rightarrow> int \<Rightarrow> 'a list \<Rightarrow> 'a list" where
  "group_rows key k rows = filter (\<lambda>r. key r = Some k) rows"

text \<open>\<^verbatim>\<open>left.merge(right, how='left')\<close> on one key column: every left row, in the order of
  the left table, once for each right row with the same key (a null key matches a null key),
  and once with nulls on the right when no right row matches.\<close>

definition left_merge ::
  "('a \<Rightarrow> 'k) \<Rightarrow> ('b \<Rightarrow> 'k) \<Rightarrow> 'a list \<Rightarrow> 'b list \<Rightarrow> ('a \<times> 'b option) list" where
  "left_merge kl kr ls rs =
     concat (map (\<lambda>l. case filter (\<lambda>r. kr r = kl l) rs of
                         [] \<Rightarrow> [(l, None)]
                       | ms \<Rightarrow> map (\<lambda>r. (l, Some r)) ms) ls)"

text \<open>A column of the right table after a left merge: null where nothing matched.\<close>

definition joined :: "('b \<Rightarrow> 'c option) \<Rightarrow> 'b option \<Rightarrow> 'c option" where
  "joined col r = (case r of None \<Rightarrow> None | Some b \<Rightarrow> col b)"

definition joined_fl :: "('b \<Rightarrow> fl) \<Rightarrow> 'b option \<Rightarrow> fl" where
  "joined_fl col r = (case r of None \<Rightarrow> NaN | Some b \<Rightarrow> col b)"

section \<open>The cleaned entities read by the loader\<close>

text \<open>
  One record per row, with the columns that \<^verbatim>\<open>src/etl/load.py\<close> reads. Identifiers are
  numeric columns; \<open>None\<close> is an empty cell. Dates are timestamps in nanoseconds.
\<close>

record cliente =
  c_id_cliente :: "int option"
  c_nombre_empresa :: "string option"
  c_ciudad :: "string option"

record empleado =
  e_id_empleado :: "int option"
  e_nombre :: "string option"
  e_cargo :: "string option"

record orden =
  o_id_orden :: "int option"
  o_id_cliente :: "int option"
  o_id_empleado_responsable :: "int option"
  o_fecha_orden :: "int option"
  o_estado :: "string option"

record producto =
  p_id_producto :: "int option"
  p_nombre_producto :: "string option"

record material =
  m_id_material :: "int option"
  m_nombre_material :: "string option"
  m_tipo :: "string option"
  m_cantidad_disponible :: fl

record detalle =
  d_id_orden :: "int option"
  d_id_producto :: "int option"
  d_cantidad :: fl
  d_subtotal :: fl

record uso =
  u_id_orden :: "int option"
  u_id_material :: "int option"
  u_cantidad_usada :: fl

section \<open>The derived tables\<close>

record orden_completa =
  oc_orden :: orden
  oc_nombre_empresa :: "string option"
  oc_ciudad :: "string option"
  oc_id_empleado :: "int option"
  oc_nombre_empleado :: "string option"
  oc_cargo_empleado :: "string option"

record venta =
  v_id_producto :: int
  v_nombre_producto :: "string option"
  v_cantidad_total :: fl
  v_ingresos_totales :: fl
  v_num_ordenes :: nat
  v_ticket_promedio :: fl

record uso_agg =
  ua_id_material :: int
  ua_nombre_material :: "string option"
  ua_tipo :: "string option"
  ua_cantidad_disponible :: fl
  ua_cantidad_total_usada :: fl
  ua_num_ordenes :: nat
  ua_tasa_rotacion :: fl

record metrica =
  mc_id_cliente :: int
  mc_num_ordenes :: nat
  mc_ingresos_totales :: fl
  mc_primera_orden :: "int option"
  mc_ultima_orden :: "int option"
  mc_nombre_empresa :: "string option"
  mc_ciudad :: "string option"
  mc_ticket_promedio :: fl

record productividad =
  pe_id_empleado :: int
  pe_total_ordenes :: nat
  pe_ordenes_completadas :: nat
  pe_nombre :: "string option"
  pe_cargo :: "string option"
  pe_tasa_completitud :: fl

definition fl_of_nat :: "nat \<Rightarrow> fl" where
  "fl_of_nat n = Fin (of_nat n)"

text \<open>\<^verbatim>\<open>DataLoader._create_ordenes_completas\<close>: orders, left-joined with customers on
  \<^verbatim>\<open>id_cliente\<close>, then with employees on \<^verbatim>\<open>id_empleado_responsable = id_empleado\<close>.\<close>

definition create_ordenes_completas ::
  "orden list \<Rightarrow> cliente list \<Rightarrow> empleado list \<Rightarrow> orden_completa list" where
  "create_ordenes_completas ordenes clientes empleados =
     (let df = left_merge o_id_cliente c_id_cliente ordenes clientes;
          df2 = left_merge (\<lambda>r. o_id_empleado_responsable (fst r)) e_id_empleado df empleados
      in map (\<lambda>((ord, c), e).
           \<lparr> oc_orden = ord,
             oc_nombre_empresa = joined c_nombre_empresa c,
             oc_ciudad = joined c_ciudad c,
             oc_id_empleado = joined e_id_empleado e,
             oc_nombre_empleado = joined e_nombre e,
             oc_cargo_empleado = joined e_cargo e \<rparr>) df2)"

text \<open>\<^verbatim>\<open>DataLoader._create_ventas_por_producto\<close>: order lines, left-joined with products and
  with orders, grouped by \<^verbatim>\<open>id_producto\<close>; \<^verbatim>\<open>num_ordenes\<close> is \<^verbatim>\<open>'id_orden': 'count'\<close>.\<close>

definition create_ventas_por_producto ::
  "detalle list \<Rightarrow> producto list \<Rightarrow> orden list \<Rightarrow> venta list" where
  "create_ventas_por_producto detalles productos ordenes =
     (let df = left_merge d_id_producto p_id_producto detalles productos;
          df2 = left_merge (\<lambda>r. d_id_orden (fst r)) o_id_orden df ordenes;
          key = (\<lambda>r. d_id_producto (fst (fst r)))
      in map (\<lambda>k.
           let g = group_rows key k df2;
               ingresos = nansum (map (\<lambda>r. d_subtotal (fst (fst r))) g);
               n = count_notna (map (\<lambda>r. d_id_orden (fst (fst r))) g)
           in \<lparr> v_id_producto = k,
                v_nombre_producto = first_valid (map (\<lambda>r. joined p_nombre_producto (snd (fst r))) g),
                v_cantidad_total = nansum (map (\<lambda>r. d_cantidad (fst (fst r))) g),
                v_ingresos_totales = ingresos,
                v_num_ordenes = n,
                v_ticket_promedio = fl_div ingresos (fl_of_nat n) \<rparr>)
         (group_keys key df2))"

text \<open>\<^verbatim>\<open>DataLoader._create_uso_materiales_agregado\<close>: the rotation rate is the quotient
  followed by \<^verbatim>\<open>fillna(0)\<close>.\<close>

definition create_uso_materiales_agregado ::
  "uso list \<Rightarrow> material list \<Rightarrow> orden list \<Rightarrow> uso_agg list" where
  "create_uso_materiales_agregado usos materiales ordenes =
     (let df = left_merge u_id_material m_id_material usos materiales;
          df2 = left_merge (\<lambda>r. u_id_orden (fst r)) o_id_orden df ordenes;
          key = (\<lambda>r. u_id_material (fst (fst r)))
      in map (\<lambda>k.
           let g = group_rows key k df2;
               disponible = first_valid_fl (map (\<lambda>r. joined_fl m_cantidad_disponible (snd (fst r))) g);
               usada = nansum (map (\<lambda>r. u_cantidad_usada (fst (fst r))) g)
           in \<lparr> ua_id_material = k,
                ua_nombre_material = first_valid (map (\<lambda>r. joined m_nombre_material (snd (fst r))) g),
                ua_tipo = first_valid (map (\<lambda>r. joined m_tipo (snd (fst r))) g),
                ua_cantidad_disponible = disponible,
                ua_cantidad_total_usada = usada,
                ua_num_ordenes = count_notna (map (\<lambda>r. u_id_orden (fst (fst r))) g),
                ua_tasa_rotacion = fillna0 (fl_div usada disponible) \<rparr>)
         (group_keys key df2))"

text \<open>\<^verbatim>\<open>DataLoader._create_metricas_por_cliente\<close>: the total of each order, orders
  left-joined with the totals, grouped by customer, then left-joined with the customers.\<close>

definition totales_orden :: "detalle list \<Rightarrow> (int \<times> fl) list" where
  "totales_orden detalles =
     map (\<lambda>k. (k, nansum (map d_subtotal (group_rows d_id_orden k detalles))))
       (group_keys d_id_orden detalles)"

definition create_metricas_por_cliente ::
  "orden list \<Rightarrow> detalle list \<Rightarrow> cliente list \<Rightarrow> metrica list" where
  "create_metricas_por_cliente ordenes detalles clientes =
     (let df = left_merge o_id_orden (\<lambda>t. Some (fst t)) ordenes (totales_orden detalles);
          key = (\<lambda>r. o_id_cliente (fst r));
          metricas = map (\<lambda>k.
             let g = group_rows key k df
             in (k, count_notna (map (\<lambda>r. o_id_orden (fst r)) g),
                    nansum (map (\<lambda>r. joined_fl snd (snd r)) g),
                    min_valid (map (\<lambda>r. o_fecha_orden (fst r)) g),
                    max_valid (map (\<lambda>r. o_fecha_orden (fst r)) g)))
             (group_keys key df)
      in map (\<lambda>((k, n, ingresos, primera, ultima), c).
           \<lparr> mc_id_cliente = k,
             mc_num_ordenes = n,
             mc_ingresos_totales = ingresos,
             mc_primera_orden = primera,
             mc_ultima_orden = ultima,
             mc_nombre_empresa = joined c_nombre_empresa c,
             mc_ciudad = joined c_ciudad c,
             mc_ticket_promedio = fl_div ingresos (fl_of_nat n) \<rparr>)
         (left_merge (\<lambda>m. Some (fst m)) c_id_cliente metricas clientes))"

text \<open>\<^verbatim>\<open>DataLoader._create_productividad_empleados\<close>: orders grouped by the responsible
  employee; \<^verbatim>\<open>total_ordenes\<close> counts the order identifiers that are not null,
  \<^verbatim>\<open>ordenes_completadas\<close> the rows whose status equals \<^verbatim>\<open>'Completado'\<close>.\<close>

definition create_productividad_empleados ::
  "orden list \<Rightarrow> empleado list \<Rightarrow> productividad list" where
  "create_productividad_empleados ordenes empleados =
     (let prod = map (\<lambda>k.
             let g = group_rows o_id_empleado_responsable k ordenes
             in (k, count_notna (map o_id_orden g),
                    length (filter (\<lambda>r. o_estado r = Some ''Completado'') g)))
             (group_keys o_id_empleado_responsable ordenes)
      in map (\<lambda>((k, total, completadas), e).
           \<lparr> pe_id_empleado = k,
             pe_total_ordenes = total,
             pe_ordenes_completadas = completadas,
             pe_nombre = joined e_nombre e,
             pe_cargo = joined e_cargo e,
             pe_tasa_completitud =
               round2 (fl_mul (fl_div (fl_of_nat completadas) (fl_of_nat total)) (Fin 100)) \<rparr>)
         (left_merge (\<lambda>p. Some (fst p)) e_id_empleado prod empleados))"




section \<open>Strings\<close>

text \<open>
  Python strings are modelled as ASCII text: a character above 127 is neither white space,
  nor a digit, nor a cased letter.
\<close>

definition is_space :: "char \<Rightarrow> bool" where
  "is_space c = (let n = (of_char c :: nat) in (9 \<le> n \<and> n \<le> 13) \<or> (28 \<le> n \<and> n \<le> 32))"

definition is_digit :: "char \<Rightarrow> bool" where
  "is_digit c = (let n = (of_char c :: nat) in 48 \<le> n \<and> n \<le> 57)"





text \<open>\<^verbatim>\<open>str.strip()\<close>, \<^verbatim>\<open>str.lower()\<close> and \<^verbatim>\<open>str.title()\<close>: in a title, a letter is
  upper case when the character before it is not a letter, and lower case otherwise.\<close>

definition py_strip :: "string \<Rightarrow> string" where
  "py_strip s = rev (dropWhile is_space (rev (dropWhile is_space s)))"




text \<open>\<^verbatim>\<open>s.split(sep)\<close> for a separator of one character, \<^verbatim>\<open>sub in s\<close> and \<^verbatim>\<open>str(n)\<close>
  for a row index.\<close>

fun split_on :: "char \<Rightarrow> string \<Rightarrow> string list" where
  "split_on c [] = [[]]"
| "split_on c (x # xs) =
     (if x = c then [] # split_on c xs
      else (case split_on c xs of p # ps \<Rightarrow> (x # p) # ps | [] \<Rightarrow> [[x]]))"



fun dec :: "nat \<Rightarrow> string" where
  "dec n = (if n < 10 then [char_of (48 + n)] else dec (n div 10) @ [char_of (48 + n mod 10)])"

declare dec.simps [simp del]

section \<open>Raw tables\<close>

text \<open>
  A table read by \<^verbatim>\<open>pd.read_csv\<close> is a list of named columns over the row index
  \<open>0, 1, \<dots>\<close>. A column has one dtype: \<^verbatim>\<open>object\<close> (text, an empty cell is null), a
  numeric dtype (an empty cell is NaN), or, after \<^verbatim>\<open>pd.to_datetime\<close>, timestamps in
  nanoseconds (an empty cell is NaT).
\<close>

datatype column = ObjCol "string option list" | NumCol "fl list" | DateCol "int option list"

type_synonym dataframe = "(string \<times> column) list"

datatype pyerr = KeyError | TypeError | ValueError | AttributeError

definition columns :: "dataframe \<Rightarrow> string list" where
  "columns df = map fst df"




text \<open>\<^verbatim>\<open>df[name] = col\<close>: an existing column is replaced in place, a new one is appended.\<close>

definition set_col :: "dataframe \<Rightarrow> string \<Rightarrow> column \<Rightarrow> dataframe" where
  "set_col df name col =
     (if name \<in> set (columns df)
      then map (\<lambda>(n, c). if n = name then (n, col) else (n, c)) df
      else df @ [(name, col)])"


section \<open>The cleaning functions\<close>

subsection \<open>Customers\<close>

text \<open>\<^verbatim>\<open>df.rename(columns={...})\<close>.\<close>

definition rename_columns :: "(string \<Rightarrow> string) \<Rightarrow> dataframe \<Rightarrow> dataframe" where
  "rename_columns f df = map (\<lambda>(n, c). (f n, c)) df"

definition rename_clientes :: "string \<Rightarrow> string" where
  "rename_clientes n =
     (if n = ''contacto_telefono'' then ''telefono''
      else if n = ''contacto_email'' then ''email''
      else if n = ''contacto_nombre'' then ''nombre_contacto''
      else n)"

text \<open>\<^verbatim>\<open>.str.strip()\<close> then \<^verbatim>\<open>.str.replace(r'\D', '', regex=True)\<close>; the \<^verbatim>\<open>.str\<close>
  accessor raises \<^verbatim>\<open>AttributeError\<close> on a column that is not of dtype \<^verbatim>\<open>object\<close>.\<close>

definition clean_telefono :: "dataframe \<Rightarrow> pyerr + dataframe" where
  "clean_telefono df =
     (case map_of df ''telefono'' of
        None \<Rightarrow> Inr df
      | Some (ObjCol xs) \<Rightarrow>
          Inr (set_col df ''telefono'' (ObjCol (map (map_option (\<lambda>s. filter is_digit (py_strip s))) xs)))
      | Some _ \<Rightarrow> Inl AttributeError)"

text \<open>\<^verbatim>\<open>df_clean[duplicated_emails].index\<close>, with \<^verbatim>\<open>duplicated(keep=False)\<close>: the rows whose
  value occurs more than once in the column (null equals null).\<close>

definition duplicated_index :: "'a list \<Rightarrow> nat list" where
  "duplicated_index xs = filter (\<lambda>i. 1 < count_list xs (xs ! i)) [0..<length xs]"

text \<open>The loop over \<^verbatim>\<open>index[1:]\<close>: \<^verbatim>\<open>'@' in original_email\<close> raises \<^verbatim>\<open>TypeError\<close> on a
  null cell, and unpacking \<^verbatim>\<open>original_email.split('@')\<close> into two names raises
  \<^verbatim>\<open>ValueError\<close> unless there is exactly one \<^verbatim>\<open>@\<close>.\<close>

fun dedupe_loop :: "nat list \<Rightarrow> string option list \<Rightarrow> pyerr + string option list" where
  "dedupe_loop [] col = Inr col"
| "dedupe_loop (idx # rest) col =
     (case col ! idx of
        None \<Rightarrow> Inl TypeError
      | Some original_email \<Rightarrow>
          if CHR ''@'' \<in> set original_email
          then (case split_on CHR ''@'' original_email of
                  [name, domain] \<Rightarrow>
                    dedupe_loop rest (col[idx := Some (name @ dec idx @ ''@'' @ domain)])
                | _ \<Rightarrow> Inl ValueError)
          else dedupe_loop rest col)"

definition dedupe_emails :: "dataframe \<Rightarrow> pyerr + dataframe" where
  "dedupe_emails df =
     (case map_of df ''email'' of
        None \<Rightarrow> Inl KeyError
      | Some (ObjCol xs) \<Rightarrow>
          (if duplicated_index xs = [] then Inr df
           else (case dedupe_loop (tl (duplicated_index xs)) xs of
                   Inl e \<Rightarrow> Inl e
                 | Inr xs' \<Rightarrow> Inr (set_col df ''email'' (ObjCol xs'))))
      | Some (NumCol xs) \<Rightarrow>
          (if tl (duplicated_index xs) = [] then Inr df else Inl TypeError)
      | Some (DateCol xs) \<Rightarrow>
          (if tl (duplicated_index xs) = [] then Inr df else Inl TypeError))"

definition strip_object_columns :: "dataframe \<Rightarrow> dataframe" where
  "strip_object_columns df =
     map (\<lambda>(n, c). (n, case c of ObjCol xs \<Rightarrow> ObjCol (map (map_option py_strip) xs) | _ \<Rightarrow> c)) df"

text \<open>\<^verbatim>\<open>DataTransformer.transform_clientes\<close>.\<close>

definition transform_clientes :: "dataframe \<Rightarrow> pyerr + dataframe" where
  "transform_clientes df =
     (case clean_telefono (rename_columns rename_clientes df) of
        Inl e \<Rightarrow> Inl e
      | Inr df1 \<Rightarrow>
          (case dedupe_emails df1 of
             Inl e \<Rightarrow> Inl e
           | Inr df2 \<Rightarrow> Inr (strip_object_columns df2)))"

subsection \<open>Order lines\<close>






subsection \<open>Production orders\<close>











section \<open>Well-formed e-mail addresses\<close>

text \<open>
  The part of an address before the first \<^verbatim>\<open>@\<close>, the address with a row index inserted
  before the \<^verbatim>\<open>@\<close>, and the addresses on which the statement about distinct e-mails is
  made: trimmed, with exactly one \<^verbatim>\<open>@\<close>, and a local part that does not end in a digit.
\<close>

definition local_part :: "string \<Rightarrow> string" where
  "local_part s = takeWhile (\<lambda>c. c \<noteq> CHR ''@'') s"

definition domain_part :: "string \<Rightarrow> string" where
  "domain_part s = tl (dropWhile (\<lambda>c. c \<noteq> CHR ''@'') s)"

definition suffixed :: "nat \<Rightarrow> string \<Rightarrow> string" where
  "suffixed i s = local_part s @ dec i @ ''@'' @ domain_part s"

text \<open>The e-mail column after the loop over the rows \<open>I\<close>, when the loop rewrites each
  of them.\<close>

definition rewrite_rows :: "nat list \<Rightarrow> string list \<Rightarrow> string list" where
  "rewrite_rows I ss = map (\<lambda>i. if i \<in> set I then suffixed i (ss ! i) else ss ! i) [0..<length ss]"



section \<open>Concrete inputs\<close>

definition dos_ordenes :: "orden list" where
  "dos_ordenes =
     [\<lparr> o_id_orden = Some 1, o_id_cliente = Some 1, o_id_empleado_responsable = Some 7,
        o_fecha_orden = None, o_estado = Some ''Completado'' \<rparr>,
      \<lparr> o_id_orden = Some 2, o_id_cliente = Some 1, o_id_empleado_responsable = Some 7,
        o_fecha_orden = None, o_estado = Some ''Pendiente'' \<rparr>]"


definition clientes_demo :: "cliente list" where
  "clientes_demo = [\<lparr> c_id_cliente = Some 1, c_nombre_empresa = Some ''Acme'', c_ciudad = Some ''Cali'' \<rparr>]"

definition empleados_demo :: "empleado list" where
  "empleados_demo = [\<lparr> e_id_empleado = Some 7, e_nombre = Some ''Ana'', e_cargo = Some ''Operario'' \<rparr>]"



definition ordenes_huerfana :: "orden list" where
  "ordenes_huerfana =
     [\<lparr> o_id_orden = Some 3, o_id_cliente = Some 9, o_id_empleado_responsable = Some 8,
        o_fecha_orden = None, o_estado = Some ''Pendiente'' \<rparr>]"




section \<open>Properties of the loader\<close>

subsection \<open>Grouping and left joins\<close>

lemma set_map_filter_Some: "set (List.map_filter f xs) = {y. \<exists>x \<in> set xs. f x = Some y}"
  by (induction xs) (auto simp: List.map_filter_simps split: option.splits)

lemma set_group_keys: "set (group_keys key rows) = {k. \<exists>r \<in> set rows. key r = Some k}"
  by (simp add: group_keys_def set_map_filter_Some)

lemma distinct_group_keys: "distinct (group_keys key rows)"
  by (simp add: group_keys_def)

lemma sorted_group_keys: "sorted (group_keys key rows)"
  by (simp add: group_keys_def)

lemma left_merge_Nil [simp]: "left_merge kl kr [] rs = []"
  by (simp add: left_merge_def)

lemma left_merge_Cons:
  "left_merge kl kr (l # ls) rs =
     (case filter (\<lambda>r. kr r = kl l) rs of [] \<Rightarrow> [(l, None)] | ms \<Rightarrow> map (\<lambda>r. (l, Some r)) ms)
     @ left_merge kl kr ls rs"
  by (simp add: left_merge_def)

lemma fst_set_left_merge: "fst ` set (left_merge kl kr ls rs) = set ls"
proof (induction ls)
  case Nil
  show ?case by simp
next
  case (Cons l ls)
  have "fst ` set (case filter (\<lambda>r. kr r = kl l) rs of [] \<Rightarrow> [(l, None)]
                   | ms \<Rightarrow> map (\<lambda>r. (l, Some r)) ms) = {l}"
    by (cases "filter (\<lambda>r. kr r = kl l) rs") (auto simp: image_iff)
  with Cons show ?case
    by (simp add: left_merge_Cons image_Un)
qed

lemma left_merge_fstD: "(l, r) \<in> set (left_merge kl kr ls rs) \<Longrightarrow> l \<in> set ls"
  using fst_set_left_merge [of kl kr ls rs] by force

lemma length_left_merge_ge: "length ls \<le> length (left_merge kl kr ls rs)"
proof (induction ls)
  case Nil
  show ?case by simp
next
  case (Cons l ls)
  have "1 \<le> length (case filter (\<lambda>r. kr r = kl l) rs of [] \<Rightarrow> [(l, None)]
                   | ms \<Rightarrow> map (\<lambda>r. (l, Some r)) ms)"
    by (cases "filter (\<lambda>r. kr r = kl l) rs") auto
  with Cons show ?case
    by (simp add: left_merge_Cons)
qed

lemma filter_key_distinct:
  "distinct (map kr rs) \<Longrightarrow> length (filter (\<lambda>r. kr r = k) rs) \<le> 1"
  by (induction rs) (auto simp: filter_empty_conv image_iff)

lemma map_fst_left_merge_distinct:
  assumes "distinct (map kr rs)"
  shows "map fst (left_merge kl kr ls rs) = ls"
proof (induction ls)
  case Nil
  show ?case by simp
next
  case (Cons l ls)
  have "length (filter (\<lambda>r. kr r = kl l) rs) \<le> 1"
    using assms by (rule filter_key_distinct)
  then have "map fst (case filter (\<lambda>r. kr r = kl l) rs of [] \<Rightarrow> [(l, None)]
                   | ms \<Rightarrow> map (\<lambda>r. (l, Some r)) ms) = [l]"
    by (cases "filter (\<lambda>r. kr r = kl l) rs") auto
  with Cons show ?case
    by (simp add: left_merge_Cons)
qed

lemma round_half_even_bounds:
  assumes "of_int a \<le> q" "q \<le> of_int b"
  shows "a \<le> round_half_even q \<and> round_half_even q \<le> b"
proof -
  have fl: "a \<le> \<lfloor>q\<rfloor>" using assms(1) by (simp add: le_floor_iff)
  have fb: "\<lfloor>q\<rfloor> \<le> b" using assms(2) by (simp add: floor_le_iff)
  show ?thesis
  proof (cases "q = of_int b")
    case True
    then show ?thesis using fl by (simp add: round_half_even_def Let_def)
  next
    case False
    then have "q < of_int b" using assms(2) by simp
    then have "\<lfloor>q\<rfloor> < b" by (simp add: floor_less_iff)
    then show ?thesis using fl by (auto simp: round_half_even_def Let_def)
  qed
qed

subsection \<open>Which derived tables are built\<close>



subsection \<open>The ratio fields\<close>

text \<open>
  Claim C1, evaluated at a usage of 5 units of a material whose available quantity is 0 (the
  value the cleaning step itself writes for an unparseable quantity): the quotient is
  \<open>+\<infinity>\<close>, \<^verbatim>\<open>fillna(0)\<close> replaces NaN only, and \<^verbatim>\<open>tasa_rotacion\<close> is infinite
  although its denominator is zero.
\<close>

theorem C1_tasa_rotacion_infinite_on_zero_denominator:
  "map ua_cantidad_disponible (create_uso_materiales_agregado
     [\<lparr> u_id_orden = Some 1, u_id_material = Some 3, u_cantidad_usada = Fin 5 \<rparr>]
     [\<lparr> m_id_material = Some 3, m_nombre_material = Some ''Acero'', m_tipo = Some ''Metal'',
        m_cantidad_disponible = Fin 0 \<rparr>]
     [\<lparr> o_id_orden = Some 1, o_id_cliente = Some 1, o_id_empleado_responsable = Some 7,
        o_fecha_orden = None, o_estado = Some ''Completado'' \<rparr>]) = [Fin 0] \<and>
   map ua_tasa_rotacion (create_uso_materiales_agregado
     [\<lparr> u_id_orden = Some 1, u_id_material = Some 3, u_cantidad_usada = Fin 5 \<rparr>]
     [\<lparr> m_id_material = Some 3, m_nombre_material = Some ''Acero'', m_tipo = Some ''Metal'',
        m_cantidad_disponible = Fin 0 \<rparr>]
     [\<lparr> o_id_orden = Some 1, o_id_cliente = Some 1, o_id_empleado_responsable = Some 7,
        o_fecha_orden = None, o_estado = Some ''Completado'' \<rparr>]) = [PInf]"
  by (simp add: create_uso_materiales_agregado_def group_keys_def group_rows_def
      List.map_filter_simps left_merge_def count_notna_def joined_def joined_fl_def
      nansum_def fl_sum_def first_valid_fl_def first_valid_def fillna0_def isna_def)

text \<open>
  Claim C10, as stated, at one completed order whose order identifier is empty:
  \<^verbatim>\<open>'id_orden': 'count'\<close> counts no order for the employee, one row is completed, and
  the rate is \<open>+\<infinity>\<close>.
\<close>

theorem C10_counterexample_null_id_orden:
  "create_productividad_empleados
     [\<lparr> o_id_orden = None, o_id_cliente = Some 1, o_id_empleado_responsable = Some 7,
        o_fecha_orden = None, o_estado = Some ''Completado'' \<rparr>]
     [\<lparr> e_id_empleado = Some 7, e_nombre = Some ''Ana'', e_cargo = Some ''Operario'' \<rparr>]
   = [\<lparr> pe_id_empleado = 7, pe_total_ordenes = 0, pe_ordenes_completadas = 1,
        pe_nombre = Some ''Ana'', pe_cargo = Some ''Operario'', pe_tasa_completitud = PInf \<rparr>]"
  by (simp add: create_productividad_empleados_def group_keys_def group_rows_def
      List.map_filter_simps left_merge_def count_notna_def joined_def fl_of_nat_def round2_def)

text \<open>
  Claim C10, amended. When every order row has an order identifier, every row of
  \<^verbatim>\<open>productividad_empleados\<close> has at least one order, no more completed orders than
  orders, and a completion rate that is a number between 0 and 100.
\<close>

theorem C10_tasa_completitud_in_range:
  assumes "\<forall>r \<in> set ordenes. o_id_orden r \<noteq> None"
  shows "\<forall>p \<in> set (create_productividad_empleados ordenes empleados).
           1 \<le> pe_total_ordenes p \<and>
           pe_ordenes_completadas p \<le> pe_total_ordenes p \<and>
           (\<exists>q. pe_tasa_completitud p = Fin q \<and> 0 \<le> q \<and> q \<le> 100)"
proof
  fix p
  assume "p \<in> set (create_productividad_empleados ordenes empleados)"
  then obtain k t0 c0 e where
    m: "((k, t0, c0), e) \<in> set (left_merge (\<lambda>p. Some (fst p)) e_id_empleado
          (map (\<lambda>k. (k, count_notna (map o_id_orden (group_rows o_id_empleado_responsable k ordenes)),
                 length (filter (\<lambda>r. o_estado r = Some ''Completado'')
                   (group_rows o_id_empleado_responsable k ordenes))))
            (group_keys o_id_empleado_responsable ordenes)) empleados)" and
    p: "p = \<lparr> pe_id_empleado = k, pe_total_ordenes = t0, pe_ordenes_completadas = c0,
             pe_nombre = joined e_nombre e, pe_cargo = joined e_cargo e,
             pe_tasa_completitud = round2 (fl_mul (fl_div (fl_of_nat c0) (fl_of_nat t0)) (Fin 100)) \<rparr>"
    unfolding create_productividad_empleados_def Let_def by auto
  from left_merge_fstD [OF m]
  have k: "k \<in> set (group_keys o_id_empleado_responsable ordenes)"
    and t0: "t0 = count_notna (map o_id_orden (group_rows o_id_empleado_responsable k ordenes))"
    and c0: "c0 = length (filter (\<lambda>r. o_estado r = Some ''Completado'')
                   (group_rows o_id_empleado_responsable k ordenes))"
    by auto
  define g where "g = group_rows o_id_empleado_responsable k ordenes"
  define t where "t = count_notna (map o_id_orden g)"
  define c where "c = length (filter (\<lambda>r. o_estado r = Some ''Completado'') g)"
  have "set g \<subseteq> set ordenes" by (auto simp: g_def group_rows_def)
  then have "filter (\<lambda>x. x \<noteq> None) (map o_id_orden g) = map o_id_orden g"
    using assms by (auto simp: filter_id_conv)
  then have t_len: "t = length g" by (simp add: t_def count_notna_def)
  have "g \<noteq> []" using k by (auto simp: g_def group_rows_def set_group_keys filter_empty_conv)
  then have t1: "1 \<le> t" using t_len by (cases g) auto
  have ct: "c \<le> t" unfolding c_def t_len by (rule length_filter_le)
  define x :: rat where "x = of_nat c / of_nat t"
  have x0: "0 \<le> x" by (simp add: x_def)
  have x1: "x \<le> 1" using ct t1 by (simp add: x_def divide_le_eq_1)
  have r: "0 \<le> round_half_even (x * 100 * 100) \<and> round_half_even (x * 100 * 100) \<le> 10000"
    using x0 x1 by (intro round_half_even_bounds) auto
  have tasa: "pe_tasa_completitud p = Fin (of_int (round_half_even (x * 100 * 100)) / 100)"
    using t1 by (simp add: p t0 c0 g_def [symmetric] c_def [symmetric] t_def [symmetric]
        fl_of_nat_def round2_def x_def)
  have lo: "(0::rat) \<le> of_int (round_half_even (x * 100 * 100)) / 100"
    using r by simp
  have hi: "(of_int (round_half_even (x * 100 * 100)) :: rat) / 100 \<le> 100"
    using r by (simp add: divide_le_eq)
  have ex: "\<exists>q. pe_tasa_completitud p = Fin q \<and> 0 \<le> q \<and> q \<le> 100"
    using tasa lo hi by blast
  have "pe_total_ordenes p = t" "pe_ordenes_completadas p = c"
    by (simp_all add: p t0 c0 g_def c_def t_def)
  then show "1 \<le> pe_total_ordenes p \<and>
           pe_ordenes_completadas p \<le> pe_total_ordenes p \<and>
           (\<exists>q. pe_tasa_completitud p = Fin q \<and> 0 \<le> q \<and> q \<le> 100)"
    using t1 ct ex by simp
qed


theorem C10_witness_two_orders:
  "(o_id_orden (dos_ordenes ! 0) \<noteq> None \<and> o_id_orden (dos_ordenes ! 1) \<noteq> None) \<and>
   list_all (\<lambda>p. 1 \<le> pe_total_ordenes p \<and> pe_ordenes_completadas p \<le> pe_total_ordenes p \<and>
                 (\<exists>q. pe_tasa_completitud p = Fin q \<and> 0 \<le> q \<and> q \<le> 100))
     (create_productividad_empleados dos_ordenes [])"
  using C10_tasa_completitud_in_range [of dos_ordenes "[]"]
  by (simp add: dos_ordenes_def list_all_iff)

subsection \<open>Row counts of the derived tables\<close>

lemma group_keys_sorted_list:
  "group_keys key rows = sorted_list_of_set {k. \<exists>r \<in> set rows. key r = Some k}"
proof -
  have "sort (remdups (List.map_filter key rows)) =
        sorted_list_of_set (set (List.map_filter key rows))"
    by (simp add: sorted_list_of_set_sort_remdups)
  then show ?thesis
    by (simp add: group_keys_def set_map_filter_Some)
qed

lemma keys_left_merge:
  "{k. \<exists>r \<in> set (left_merge kl kr ls rs). f (fst r) = Some k} = {k. \<exists>l \<in> set ls. f l = Some k}"
proof -
  have "{k. \<exists>r \<in> set (left_merge kl kr ls rs). f (fst r) = Some k}
        = {k. \<exists>l \<in> fst ` set (left_merge kl kr ls rs). f l = Some k}"
    by auto
  then show ?thesis by (simp only: fst_set_left_merge)
qed

lemma group_keys_left_merge:
  "group_keys (\<lambda>r. f (fst r)) (left_merge kl kr ls rs) = group_keys f ls"
  by (simp only: group_keys_sorted_list keys_left_merge)

lemma ventas_ids:
  "map v_id_producto (create_ventas_por_producto detalles productos ordenes)
   = group_keys d_id_producto detalles"
proof -
  have "group_keys (\<lambda>r. d_id_producto (fst (fst r)))
          (left_merge (\<lambda>r. d_id_orden (fst r)) o_id_orden
             (left_merge d_id_producto p_id_producto detalles productos) ordenes)
        = group_keys d_id_producto detalles"
    by (simp only: group_keys_left_merge [of "\<lambda>r. d_id_producto (fst r)"]
        group_keys_left_merge [of d_id_producto])
  then show ?thesis
    by (simp add: create_ventas_por_producto_def Let_def comp_def)
qed

lemma uso_ids:
  "map ua_id_material (create_uso_materiales_agregado usos materiales ordenes)
   = group_keys u_id_material usos"
proof -
  have "group_keys (\<lambda>r. u_id_material (fst (fst r)))
          (left_merge (\<lambda>r. u_id_orden (fst r)) o_id_orden
             (left_merge u_id_material m_id_material usos materiales) ordenes)
        = group_keys u_id_material usos"
    by (simp only: group_keys_left_merge [of "\<lambda>r. u_id_material (fst r)"]
        group_keys_left_merge [of u_id_material])
  then show ?thesis
    by (simp add: create_uso_materiales_agregado_def Let_def comp_def)
qed

lemma metricas_ids:
  assumes "distinct (map c_id_cliente clientes)"
  shows "map mc_id_cliente (create_metricas_por_cliente ordenes detalles clientes)
   = group_keys o_id_cliente ordenes"
proof -
  have "map mc_id_cliente (create_metricas_por_cliente ordenes detalles clientes)
      = map (\<lambda>m. fst (fst m)) (left_merge (\<lambda>m. Some (fst m)) c_id_cliente
          (map (\<lambda>k.
             let g = group_rows (\<lambda>r. o_id_cliente (fst r)) k
                       (left_merge o_id_orden (\<lambda>t. Some (fst t)) ordenes (totales_orden detalles))
             in (k, count_notna (map (\<lambda>r. o_id_orden (fst r)) g),
                    nansum (map (\<lambda>r. joined_fl snd (snd r)) g),
                    min_valid (map (\<lambda>r. o_fecha_orden (fst r)) g),
                    max_valid (map (\<lambda>r. o_fecha_orden (fst r)) g)))
             (group_keys (\<lambda>r. o_id_cliente (fst r))
                (left_merge o_id_orden (\<lambda>t. Some (fst t)) ordenes (totales_orden detalles))))
          clientes)"
    by (simp add: create_metricas_por_cliente_def Let_def case_prod_unfold comp_def)
  also have "\<dots> = map fst (map fst (left_merge (\<lambda>m. Some (fst m)) c_id_cliente
          (map (\<lambda>k.
             let g = group_rows (\<lambda>r. o_id_cliente (fst r)) k
                       (left_merge o_id_orden (\<lambda>t. Some (fst t)) ordenes (totales_orden detalles))
             in (k, count_notna (map (\<lambda>r. o_id_orden (fst r)) g),
                    nansum (map (\<lambda>r. joined_fl snd (snd r)) g),
                    min_valid (map (\<lambda>r. o_fecha_orden (fst r)) g),
                    max_valid (map (\<lambda>r. o_fecha_orden (fst r)) g)))
             (group_keys (\<lambda>r. o_id_cliente (fst r))
                (left_merge o_id_orden (\<lambda>t. Some (fst t)) ordenes (totales_orden detalles))))
          clientes))"
    by (simp add: comp_def)
  also have "\<dots> = group_keys (\<lambda>r. o_id_cliente (fst r))
                (left_merge o_id_orden (\<lambda>t. Some (fst t)) ordenes (totales_orden detalles))"
    by (simp only: map_fst_left_merge_distinct [OF assms]) (simp add: comp_def Let_def)
  finally show ?thesis
    by (simp only: group_keys_left_merge)
qed

lemma productividad_ids:
  assumes "distinct (map e_id_empleado empleados)"
  shows "map pe_id_empleado (create_productividad_empleados ordenes empleados)
   = group_keys o_id_empleado_responsable ordenes"
proof -
  have "map pe_id_empleado (create_productividad_empleados ordenes empleados)
      = map fst (map fst (left_merge (\<lambda>p. Some (fst p)) e_id_empleado
          (map (\<lambda>k.
             let g = group_rows o_id_empleado_responsable k ordenes
             in (k, count_notna (map o_id_orden g),
                    length (filter (\<lambda>r. o_estado r = Some ''Completado'') g)))
             (group_keys o_id_empleado_responsable ordenes)) empleados))"
    by (simp add: create_productividad_empleados_def Let_def case_prod_unfold comp_def)
  also have "\<dots> = group_keys o_id_empleado_responsable ordenes"
    by (simp only: map_fst_left_merge_distinct [OF assms]) (simp add: comp_def Let_def)
  finally show ?thesis .
qed

lemma completas_ordenes:
  "map oc_orden (create_ordenes_completas ordenes clientes empleados)
   = map (\<lambda>r. fst (fst r))
       (left_merge (\<lambda>r. o_id_empleado_responsable (fst r)) e_id_empleado
          (left_merge o_id_cliente c_id_cliente ordenes clientes) empleados)"
  by (simp add: create_ordenes_completas_def Let_def case_prod_unfold comp_def)

lemma completas_set:
  "set (map oc_orden (create_ordenes_completas ordenes clientes empleados)) = set ordenes"
proof -
  have "set (map (\<lambda>r. fst (fst r))
       (left_merge (\<lambda>r. o_id_empleado_responsable (fst r)) e_id_empleado
          (left_merge o_id_cliente c_id_cliente ordenes clientes) empleados))
     = fst ` fst ` set (left_merge (\<lambda>r. o_id_empleado_responsable (fst r)) e_id_empleado
          (left_merge o_id_cliente c_id_cliente ordenes clientes) empleados)"
    by (simp add: image_image)
  then show ?thesis
    by (simp only: completas_ordenes fst_set_left_merge)
qed

lemma completas_length:
  "length ordenes \<le> length (create_ordenes_completas ordenes clientes empleados)"
proof -
  have "length ordenes \<le> length (left_merge o_id_cliente c_id_cliente ordenes clientes)"
    by (rule length_left_merge_ge)
  also have "\<dots> \<le> length (left_merge (\<lambda>r. o_id_empleado_responsable (fst r)) e_id_empleado
          (left_merge o_id_cliente c_id_cliente ordenes clientes) empleados)"
    by (rule length_left_merge_ge)
  finally show ?thesis
    by (simp add: create_ordenes_completas_def Let_def)
qed

lemma completas_exact:
  assumes "distinct (map c_id_cliente clientes)" "distinct (map e_id_empleado empleados)"
  shows "map oc_orden (create_ordenes_completas ordenes clientes empleados) = ordenes"
proof -
  have "map (\<lambda>r. fst (fst r))
       (left_merge (\<lambda>r. o_id_empleado_responsable (fst r)) e_id_empleado
          (left_merge o_id_cliente c_id_cliente ordenes clientes) empleados)
      = map fst (map fst (left_merge (\<lambda>r. o_id_empleado_responsable (fst r)) e_id_empleado
          (left_merge o_id_cliente c_id_cliente ordenes clientes) empleados))"
    by (simp add: comp_def)
  also have "\<dots> = ordenes"
    by (simp only: map_fst_left_merge_distinct [OF assms(2)] map_fst_left_merge_distinct [OF assms(1)])
  finally show ?thesis by (simp only: completas_ordenes)
qed

lemma left_merge_unmatched:
  assumes "(l, r) \<in> set (left_merge kl kr ls rs)" "kl l \<notin> kr ` set rs"
  shows "r = None"
  using assms
proof (induction ls)
  case Nil
  then show ?case by simp
next
  case (Cons a ls)
  show ?case
  proof (cases "(l, r) \<in> set (left_merge kl kr ls rs)")
    case True
    with Cons show ?thesis by simp
  next
    case False
    with Cons.prems have in_a: "(l, r) \<in> set (case filter (\<lambda>r. kr r = kl a) rs of
        [] \<Rightarrow> [(a, None)] | ms \<Rightarrow> map (\<lambda>r. (a, Some r)) ms)"
      by (simp add: left_merge_Cons)
    have la: "l = a" using in_a by (auto split: list.splits)
    have "\<forall>x \<in> set rs. kr x \<noteq> kl a"
      using Cons.prems(2) unfolding la by force
    then have "filter (\<lambda>r. kr r = kl a) rs = []"
      by (simp add: filter_empty_conv)
    with in_a show ?thesis by simp
  qed
qed

lemma completas_unmatched:
  assumes "row \<in> set (create_ordenes_completas ordenes clientes empleados)"
  shows "(o_id_cliente (oc_orden row) \<notin> c_id_cliente ` set clientes \<longrightarrow>
            oc_nombre_empresa row = None \<and> oc_ciudad row = None) \<and>
         (o_id_empleado_responsable (oc_orden row) \<notin> e_id_empleado ` set empleados \<longrightarrow>
            oc_id_empleado row = None \<and> oc_nombre_empleado row = None \<and> oc_cargo_empleado row = None)"
proof -
  from assms obtain ord c e where
    m2: "((ord, c), e) \<in> set (left_merge (\<lambda>r. o_id_empleado_responsable (fst r)) e_id_empleado
          (left_merge o_id_cliente c_id_cliente ordenes clientes) empleados)" and
    row: "row = \<lparr> oc_orden = ord, oc_nombre_empresa = joined c_nombre_empresa c,
             oc_ciudad = joined c_ciudad c, oc_id_empleado = joined e_id_empleado e,
             oc_nombre_empleado = joined e_nombre e, oc_cargo_empleado = joined e_cargo e \<rparr>"
    unfolding create_ordenes_completas_def Let_def by auto
  have m1: "(ord, c) \<in> set (left_merge o_id_cliente c_id_cliente ordenes clientes)"
    using left_merge_fstD [OF m2] .
  have c: "o_id_cliente ord \<notin> c_id_cliente ` set clientes \<Longrightarrow> c = None"
    using left_merge_unmatched [OF m1] by simp
  have e: "o_id_empleado_responsable ord \<notin> e_id_empleado ` set empleados \<Longrightarrow> e = None"
    using left_merge_unmatched [OF m2] by simp
  show ?thesis using c e by (auto simp: row joined_def)
qed






lemmas eval_loader = group_keys_def group_rows_def List.map_filter_simps left_merge_def
  count_notna_def joined_def joined_fl_def nansum_def fl_sum_def first_valid_fl_def
  first_valid_def fillna0_def isna_def fl_of_nat_def round2_def totales_orden_def
  min_valid_def max_valid_def Let_def

text \<open>
  Claim C4, as stated, at one order whose customer identifier occurs on two customer rows:
  the left join emits the order once for each of them, so the derived table has two rows
  for one order.
\<close>

theorem C4_counterexample_duplicate_customer_id:
  "map oc_ciudad (create_ordenes_completas
     [\<lparr> o_id_orden = Some 1, o_id_cliente = Some 1, o_id_empleado_responsable = Some 7,
        o_fecha_orden = None, o_estado = Some ''Completado'' \<rparr>]
     [\<lparr> c_id_cliente = Some 1, c_nombre_empresa = Some ''Acme'', c_ciudad = Some ''Cali'' \<rparr>,
      \<lparr> c_id_cliente = Some 1, c_nombre_empresa = Some ''Acme'', c_ciudad = Some ''Bogota'' \<rparr>]
     [\<lparr> e_id_empleado = Some 7, e_nombre = Some ''Ana'', e_cargo = Some ''Operario'' \<rparr>])
   = [Some ''Cali'', Some ''Bogota'']"
  by (simp add: create_ordenes_completas_def eval_loader)

text \<open>
  Claim C4, amended. No left join drops a row of its primary table: every order is in
  \<^verbatim>\<open>ordenes_completas\<close>, which has at least as many rows as there are orders, and a
  foreign key without a match leaves the joined columns null. When no identifier repeats in
  the customer table and in the employee table, \<^verbatim>\<open>ordenes_completas\<close> is the order table
  row for row. \<^verbatim>\<open>ventas_por_producto\<close> and \<^verbatim>\<open>uso_materiales_agregado\<close> have one row
  for each product, respectively material, identifier of their line table, in ascending order;
  so have \<^verbatim>\<open>metricas_por_cliente\<close> and \<^verbatim>\<open>productividad_empleados\<close> for the customers
  and employees of the orders, when no identifier repeats in the table joined after the
  grouping.
\<close>

theorem C4_left_joins_keep_every_row:
  "set (map oc_orden (create_ordenes_completas ordenes clientes empleados)) = set ordenes \<and>
   length ordenes \<le> length (create_ordenes_completas ordenes clientes empleados) \<and>
   (\<forall>row \<in> set (create_ordenes_completas ordenes clientes empleados).
      (o_id_cliente (oc_orden row) \<notin> c_id_cliente ` set clientes \<longrightarrow>
         oc_nombre_empresa row = None \<and> oc_ciudad row = None) \<and>
      (o_id_empleado_responsable (oc_orden row) \<notin> e_id_empleado ` set empleados \<longrightarrow>
         oc_id_empleado row = None \<and> oc_nombre_empleado row = None \<and> oc_cargo_empleado row = None)) \<and>
   (distinct (map c_id_cliente clientes) \<and> distinct (map e_id_empleado empleados) \<longrightarrow>
      map oc_orden (create_ordenes_completas ordenes clientes empleados) = ordenes) \<and>
   map v_id_producto (create_ventas_por_producto detalles productos ordenes)
     = sorted_list_of_set {k. \<exists>d \<in> set detalles. d_id_producto d = Some k} \<and>
   map ua_id_material (create_uso_materiales_agregado usos materiales ordenes)
     = sorted_list_of_set {k. \<exists>u \<in> set usos. u_id_material u = Some k} \<and>
   (distinct (map c_id_cliente clientes) \<longrightarrow>
      map mc_id_cliente (create_metricas_por_cliente ordenes detalles clientes)
        = sorted_list_of_set {k. \<exists>r \<in> set ordenes. o_id_cliente r = Some k}) \<and>
   (distinct (map e_id_empleado empleados) \<longrightarrow>
      map pe_id_empleado (create_productividad_empleados ordenes empleados)
        = sorted_list_of_set {k. \<exists>r \<in> set ordenes. o_id_empleado_responsable r = Some k})"
proof (intro conjI)
  show "set (map oc_orden (create_ordenes_completas ordenes clientes empleados)) = set ordenes"
    by (rule completas_set)
  show "length ordenes \<le> length (create_ordenes_completas ordenes clientes empleados)"
    by (rule completas_length)
  show "\<forall>row \<in> set (create_ordenes_completas ordenes clientes empleados).
      (o_id_cliente (oc_orden row) \<notin> c_id_cliente ` set clientes \<longrightarrow>
         oc_nombre_empresa row = None \<and> oc_ciudad row = None) \<and>
      (o_id_empleado_responsable (oc_orden row) \<notin> e_id_empleado ` set empleados \<longrightarrow>
         oc_id_empleado row = None \<and> oc_nombre_empleado row = None \<and> oc_cargo_empleado row = None)"
    using completas_unmatched by blast
  show "distinct (map c_id_cliente clientes) \<and> distinct (map e_id_empleado empleados) \<longrightarrow>
      map oc_orden (create_ordenes_completas ordenes clientes empleados) = ordenes"
    using completas_exact by blast
  show "map v_id_producto (create_ventas_por_producto detalles productos ordenes)
     = sorted_list_of_set {k. \<exists>d \<in> set detalles. d_id_producto d = Some k}"
    by (simp only: ventas_ids group_keys_sorted_list)
  show "map ua_id_material (create_uso_materiales_agregado usos materiales ordenes)
     = sorted_list_of_set {k. \<exists>u \<in> set usos. u_id_material u = Some k}"
    by (simp only: uso_ids group_keys_sorted_list)
  show "distinct (map c_id_cliente clientes) \<longrightarrow>
      map mc_id_cliente (create_metricas_por_cliente ordenes detalles clientes)
        = sorted_list_of_set {k. \<exists>r \<in> set ordenes. o_id_cliente r = Some k}"
    by (simp add: metricas_ids group_keys_sorted_list)
  show "distinct (map e_id_empleado empleados) \<longrightarrow>
      map pe_id_empleado (create_productividad_empleados ordenes empleados)
        = sorted_list_of_set {k. \<exists>r \<in> set ordenes. o_id_empleado_responsable r = Some k}"
    by (simp add: productividad_ids group_keys_sorted_list)
qed

theorem C4_witness_unique_and_unmatched_keys:
  "(distinct (map c_id_cliente clientes_demo) \<and> distinct (map e_id_empleado empleados_demo)) \<and>
   map oc_orden (create_ordenes_completas dos_ordenes clientes_demo empleados_demo) = dos_ordenes \<and>
   (o_id_cliente (ordenes_huerfana ! 0) \<notin> c_id_cliente ` set clientes_demo \<and>
    o_id_empleado_responsable (ordenes_huerfana ! 0) \<notin> e_id_empleado ` set empleados_demo) \<and>
   map oc_orden (create_ordenes_completas ordenes_huerfana clientes_demo empleados_demo)
     = ordenes_huerfana \<and>
   map oc_nombre_empresa (create_ordenes_completas ordenes_huerfana clientes_demo empleados_demo)
     = [None] \<and>
   map oc_nombre_empleado (create_ordenes_completas ordenes_huerfana clientes_demo empleados_demo)
     = [None]"
proof -
  have h: "distinct (map c_id_cliente clientes_demo) \<and> distinct (map e_id_empleado empleados_demo)"
    by (simp add: clientes_demo_def empleados_demo_def)
  have u: "o_id_cliente (ordenes_huerfana ! 0) \<notin> c_id_cliente ` set clientes_demo \<and>
    o_id_empleado_responsable (ordenes_huerfana ! 0) \<notin> e_id_empleado ` set empleados_demo"
    by (simp add: clientes_demo_def empleados_demo_def ordenes_huerfana_def)
  have e1: "map oc_nombre_empresa
      (create_ordenes_completas ordenes_huerfana clientes_demo empleados_demo) = [None]"
    by (simp add: clientes_demo_def empleados_demo_def ordenes_huerfana_def
        create_ordenes_completas_def left_merge_def joined_def)
  have e2: "map oc_nombre_empleado
      (create_ordenes_completas ordenes_huerfana clientes_demo empleados_demo) = [None]"
    by (simp add: clientes_demo_def empleados_demo_def ordenes_huerfana_def
        create_ordenes_completas_def left_merge_def joined_def)
  from C4_left_joins_keep_every_row [of dos_ordenes clientes_demo empleados_demo "[]" "[]" "[]" "[]"] h
  have a: "map oc_orden (create_ordenes_completas dos_ordenes clientes_demo empleados_demo)
      = dos_ordenes" by blast
  from C4_left_joins_keep_every_row [of ordenes_huerfana clientes_demo empleados_demo "[]" "[]" "[]" "[]"] h
  have b: "map oc_orden (create_ordenes_completas ordenes_huerfana clientes_demo empleados_demo)
      = ordenes_huerfana" by blast
  from h a u b e1 e2 show ?thesis by blast
qed

subsection \<open>Sales by product\<close>






section \<open>Properties of the cleaning functions\<close>

subsection \<open>Splitting, row indices and trimmed text\<close>














lemma at_not_space: "\<not> is_space CHR ''@''"
  by (simp add: is_space_def)





















lemma length_rewrite_rows [simp]: "length (rewrite_rows I ss) = length ss"
  by (simp add: rewrite_rows_def)





subsection \<open>Columns of a table\<close>









subsection \<open>Customer e-mail addresses\<close>





subsection \<open>Cleaning is not total\<close>

text \<open>
  Claim C6, evaluated on four customer tables: two customers without e-mail among three (the
  null cells are duplicates of each other and \<^verbatim>\<open>'@' in nan\<close> raises \<^verbatim>\<open>TypeError\<close>), two customers
  with the same e-mail holding two \<^verbatim>\<open>@\<close> (the unpacking of the split raises
  \<^verbatim>\<open>ValueError\<close>), a table without e-mail column (\<^verbatim>\<open>df_clean['email']\<close> raises
  \<^verbatim>\<open>KeyError\<close>, while the telephone column is guarded), and a telephone column of digits
  only, which \<^verbatim>\<open>read_csv\<close> reads as numbers (\<^verbatim>\<open>.str\<close> raises \<^verbatim>\<open>AttributeError\<close>).
\<close>

theorem C6_transform_clientes_raises:
  "transform_clientes
     [(''id_cliente'', NumCol [Fin 1, Fin 2, Fin 3]),
      (''contacto_email'', ObjCol [Some ''a@x.com'', None, None])] = Inl TypeError \<and>
   transform_clientes
     [(''id_cliente'', NumCol [Fin 1, Fin 2]),
      (''contacto_email'', ObjCol [Some ''a@b@x.com'', Some ''a@b@x.com''])] = Inl ValueError \<and>
   transform_clientes
     [(''id_cliente'', NumCol [Fin 1, Fin 2]),
      (''nombre_empresa'', ObjCol [Some ''Acme'', Some ''Beta''])] = Inl KeyError \<and>
   transform_clientes
     [(''id_cliente'', NumCol [Fin 1, Fin 2]),
      (''contacto_telefono'', NumCol [Fin 3001234567, Fin 3109876543]),
      (''contacto_email'', ObjCol [Some ''a@x.com'', Some ''b@x.com''])] = Inl AttributeError"
  by code_simp

subsection \<open>Cleaning twice\<close>

text \<open>
  Claim C8, evaluated on two customers whose e-mails differ by a leading blank only: the
  duplicates are looked for before the blanks are trimmed, so the first cleaning returns the
  same address twice, and cleaning that result rewrites the second address.
\<close>

theorem C8_transform_clientes_not_idempotent:
  "transform_clientes
     [(''id_cliente'', NumCol [Fin 1, Fin 2]),
      (''contacto_email'', ObjCol [Some '' a@x.com'', Some ''a@x.com''])]
   = Inr [(''id_cliente'', NumCol [Fin 1, Fin 2]),
          (''email'', ObjCol [Some ''a@x.com'', Some ''a@x.com''])] \<and>
   transform_clientes
     [(''id_cliente'', NumCol [Fin 1, Fin 2]),
      (''email'', ObjCol [Some ''a@x.com'', Some ''a@x.com''])]
   = Inr [(''id_cliente'', NumCol [Fin 1, Fin 2]),
          (''email'', ObjCol [Some ''a@x.com'', Some ''a1@x.com''])]"
  by code_simp


subsection \<open>Unit price of an order line\<close>














subsection \<open>Production orders\<close>










end
